theory Spec2Isabelle
  imports Complex_Main
begin

section \<open>Conventions of the embedding\<close>

text \<open>
  The two headers \<^verbatim>\<open>include/behavioral/state.h\<close> and
  \<^verbatim>\<open>include/behavioral/strategy.h\<close> are embedded. Every C++ \<^verbatim>\<open>float\<close>
  is modelled by a real number. In the character's motion (\<^verbatim>\<open>StateCharacter::move\<close>,
  the velocity and height of a jump, the steps of the walking and jumping input handlers)
  every sum and product is rounded to binary32 as the machine does, because the frame in
  which a jump lands depends on that rounding. Everywhere else (timers, the mana gain, the
  enemy's motion and health ratio) sums, products, quotients, square roots and comparisons
  are the exact ones. Infinities and NaN are outside the model throughout. Every C++
  \<^verbatim>\<open>int\<close> is modelled by an unbounded integer; the values that occur (health and mana
  between 0 and their caps) are far from the 32-bit limits.

  An object held through \<^verbatim>\<open>std::unique_ptr\<close> is an \<open>option\<close> value, \<open>None\<close>
  being the null pointer. The classes of a virtual interface are the constructors of one
  datatype, the private members that change at run time being the constructor arguments;
  a virtual call is a function defined by cases on the constructor. A member function that
  mutates its object takes the object and returns the new one.

  Two classes have members called \<^verbatim>\<open>name\<close>, \<^verbatim>\<open>x\<close>, \<^verbatim>\<open>y\<close>,
  \<^verbatim>\<open>health\<close> and \<^verbatim>\<open>maxHealth\<close>; these fields carry the prefix \<open>c_\<close> in the
  character record and \<open>e_\<close> in the enemy record. All other names are the source's.
\<close>

section \<open>The character state machine (state.h)\<close>

subsection \<open>Data\<close>

text \<open>
  The five concrete state classes. \<^verbatim>\<open>AttackingState\<close> carries its
  \<^verbatim>\<open>attackTimer\<close> and \<^verbatim>\<open>CastingState\<close> its \<^verbatim>\<open>castTimer\<close>; the other
  private members are never assigned after construction and are the constants below.
\<close>

datatype CharacterState =
    IdleState
  | WalkingState
  | JumpingState
  | AttackingState real
  | CastingState real

definition walkSpeed :: real where "walkSpeed = 100"
definition jumpForce :: real where "jumpForce = 300"
definition gravity :: real where "gravity = - 500"
definition attackDuration :: real where "attackDuration = 1 / 2"
definition castDuration :: real where "castDuration = 1"
definition manaCost :: int where "manaCost = 10"

record StateCharacter =
  currentState :: "CharacterState option"
  c_name :: string
  c_x :: real
  c_y :: real
  c_health :: int
  c_maxHealth :: int
  moveSpeed :: real
  isGrounded :: bool
  jumpVelocity :: real
  mana :: int
  maxMana :: int

subsection \<open>Binary32 arithmetic\<close>

text \<open>
  A binary32 number other than an infinity or NaN is an integer multiple of a power of two:
  of \<open>2 ^ (e - 23)\<close> in the binade \<open>2 ^ e \<le> |x| < 2 ^ (e + 1)\<close> for
  \<open>-126 \<le> e \<le> 127\<close>, and of \<open>2 ^ (-149)\<close> below \<open>2 ^ (-126)\<close>. The result of
  an operation is the exact result rounded to the nearest such multiple, a tie going to the
  even one. \<open>expo_search\<close> walks down from the top binade to find \<open>e\<close>. A result
  of magnitude \<open>2 ^ 128\<close> or more, where the machine produces an infinity, is rounded in
  the top binade instead.
\<close>

definition round_half_even :: "real \<Rightarrow> int" where
  "round_half_even r =
     (let f = \<lfloor>r\<rfloor>
      in if r - real_of_int f < 1 / 2 then f
         else if r - real_of_int f > 1 / 2 then f + 1
         else if even f then f else f + 1)"

fun expo_search :: "nat \<Rightarrow> int \<Rightarrow> real \<Rightarrow> int" where
  "expo_search 0 e a = e"
| "expo_search (Suc n) e a = (if power_int 2 e \<le> a then e else expo_search n (e - 1) a)"

definition float_exponent :: "real \<Rightarrow> int" where
  "float_exponent x = expo_search 253 127 \<bar>x\<bar>"

definition float_round :: "real \<Rightarrow> real" where
  "float_round x =
     (let q = power_int 2 (float_exponent x - 23)
      in real_of_int (round_half_even (x / q)) * q)"

definition fadd :: "real \<Rightarrow> real \<Rightarrow> real" where
  "fadd a b = float_round (a + b)"

definition fmul :: "real \<Rightarrow> real \<Rightarrow> real" where
  "fmul a b = float_round (a * b)"

text \<open>The literal \<^verbatim>\<open>0.016f\<close>: the binary32 number nearest to 0.016.\<close>

definition float_0_016 :: real where
  "float_0_016 = float_round (16 / 1000)"

subsection \<open>Accessors and modifiers of the character\<close>

definition setPosition :: "real \<Rightarrow> real \<Rightarrow> StateCharacter \<Rightarrow> StateCharacter" where
  "setPosition newX newY c = c\<lparr>c_x := newX, c_y := newY\<rparr>"

definition move :: "real \<Rightarrow> real \<Rightarrow> StateCharacter \<Rightarrow> StateCharacter" where
  "move deltaX deltaY c = c\<lparr>c_x := fadd (c_x c) deltaX, c_y := fadd (c_y c) deltaY\<rparr>"

definition setHealth :: "int \<Rightarrow> StateCharacter \<Rightarrow> StateCharacter" where
  "setHealth hp c = c\<lparr>c_health := max 0 (min (c_maxHealth c) hp)\<rparr>"

definition setMoveSpeed :: "real \<Rightarrow> StateCharacter \<Rightarrow> StateCharacter" where
  "setMoveSpeed speed c = c\<lparr>moveSpeed := speed\<rparr>"

definition setGrounded :: "bool \<Rightarrow> StateCharacter \<Rightarrow> StateCharacter" where
  "setGrounded grounded c = c\<lparr>isGrounded := grounded\<rparr>"

definition setJumpVelocity :: "real \<Rightarrow> StateCharacter \<Rightarrow> StateCharacter" where
  "setJumpVelocity velocity c = c\<lparr>jumpVelocity := velocity\<rparr>"

definition setMana :: "int \<Rightarrow> StateCharacter \<Rightarrow> StateCharacter" where
  "setMana mp c = c\<lparr>mana := max 0 (min (maxMana c) mp)\<rparr>"

text \<open>
  \<^verbatim>\<open>static_cast<int>\<close> of a float drops the fractional part (rounds towards zero).
\<close>

definition static_cast_int :: "real \<Rightarrow> int" where
  "static_cast_int r = (if r < 0 then \<lceil>r\<rceil> else \<lfloor>r\<rfloor>)"

subsection \<open>The state classes: names, guards and the factory\<close>

fun getStateName :: "CharacterState \<Rightarrow> string" where
  "getStateName IdleState = ''idle''"
| "getStateName WalkingState = ''walking''"
| "getStateName JumpingState = ''jumping''"
| "getStateName (AttackingState attackTimer) = ''attacking''"
| "getStateName (CastingState castTimer) = ''casting''"

fun canTransitionTo :: "CharacterState \<Rightarrow> string \<Rightarrow> bool" where
  "canTransitionTo IdleState newState =
     (newState = ''walking'' \<or> newState = ''jumping'' \<or>
      newState = ''attacking'' \<or> newState = ''casting'')"
| "canTransitionTo WalkingState newState =
     (newState = ''idle'' \<or> newState = ''jumping'' \<or> newState = ''attacking'')"
| "canTransitionTo JumpingState newState =
     (newState = ''idle'' \<or> newState = ''attacking'')"
| "canTransitionTo (AttackingState attackTimer) newState =
     (newState = ''idle'' \<or> newState = ''jumping'')"
| "canTransitionTo (CastingState castTimer) newState =
     (newState = ''idle'' \<or> newState = ''walking'')"

text \<open>
  \<^verbatim>\<open>StateFactory::createState\<close>: a freshly constructed state (timers at their
  initialisers) or the null pointer.
\<close>

definition createState :: "string \<Rightarrow> CharacterState option" where
  "createState stateName =
     (if stateName = ''idle'' then Some IdleState
      else if stateName = ''walking'' then Some WalkingState
      else if stateName = ''jumping'' then Some JumpingState
      else if stateName = ''attacking'' then Some (AttackingState 0)
      else if stateName = ''casting'' then Some (CastingState 0)
      else None)"

text \<open>
  The member \<^verbatim>\<open>states\<close> as \<^verbatim>\<open>initializeStates\<close> fills it: five keys, each
  bound to the pointer the factory returns for it. \<^verbatim>\<open>setState\<close> moves an entry out
  and \<^verbatim>\<open>createStateInstance\<close> rebinds the same key to a new factory product before
  \<^verbatim>\<open>setState\<close> returns, and nothing else writes to the map or to an object inside it,
  so the map read by every \<^verbatim>\<open>states.find\<close> is this one. The header defines
  \<^verbatim>\<open>initializeStates\<close> and \<^verbatim>\<open>createStateInstance\<close> under the class name
  \<^verbatim>\<open>GameCharacter\<close>; they are read as the two members that
  \<^verbatim>\<open>StateCharacter\<close> declares.
\<close>

definition states :: "string \<rightharpoonup> CharacterState option" where
  "states = map_of
     [(''idle'', createState ''idle''),
      (''walking'', createState ''walking''),
      (''jumping'', createState ''jumping''),
      (''attacking'', createState ''attacking''),
      (''casting'', createState ''casting'')]"

text \<open>
  The string returned for a null \<^verbatim>\<open>currentState\<close> is a Chinese literal; it is
  given by its UTF-8 bytes.
\<close>

definition getCurrentStateName :: "StateCharacter \<Rightarrow> string" where
  "getCurrentStateName c =
     (case currentState c of
        Some s \<Rightarrow> getStateName s
      | None \<Rightarrow> [CHR 0xE6, CHR 0x97, CHR 0xA0, CHR 0xE7, CHR 0x8A, CHR 0xB6, CHR 0xE6, CHR 0x80, CHR 0x81])"

subsection \<open>Exit hooks, enter hooks and setState\<close>

fun onExit :: "CharacterState \<Rightarrow> StateCharacter \<Rightarrow> StateCharacter" where
  "onExit IdleState c = c"
| "onExit WalkingState c = setMoveSpeed 0 c"
| "onExit JumpingState c = c"
| "onExit (AttackingState attackTimer) c = c"
| "onExit (CastingState castTimer) c = c"

text \<open>
  \<^verbatim>\<open>setState\<close> and the enter hooks call each other: \<^verbatim>\<open>CastingState::onEnter\<close>
  calls \<^verbatim>\<open>setState("idle")\<close> when the mana is below the cost. The enter hook runs on
  the object that has just become \<^verbatim>\<open>currentState\<close>, so an assignment to a timer
  member is an assignment to the \<open>currentState\<close> field. A null pointer found in the map
  would be dereferenced by the source; the map above holds none, and the model leaves the
  character as it is in that branch.
\<close>

function setState :: "string \<Rightarrow> StateCharacter \<Rightarrow> StateCharacter"
  and onEnter :: "CharacterState \<Rightarrow> StateCharacter \<Rightarrow> StateCharacter" where
  "setState stateName c =
     (case states stateName of
        None \<Rightarrow> c
      | Some None \<Rightarrow> c
      | Some (Some inst) \<Rightarrow>
          (if (case currentState c of None \<Rightarrow> True | Some cur \<Rightarrow> canTransitionTo cur stateName)
           then onEnter inst
                  ((case currentState c of None \<Rightarrow> c | Some cur \<Rightarrow> onExit cur c)
                     \<lparr>currentState := Some inst\<rparr>)
           else c))"
| "onEnter IdleState c = setMoveSpeed 0 c"
| "onEnter WalkingState c = setMoveSpeed walkSpeed c"
| "onEnter JumpingState c = setJumpVelocity jumpForce (setGrounded False c)"
| "onEnter (AttackingState attackTimer) c =
     setMoveSpeed 0 (c\<lparr>currentState := Some (AttackingState 0)\<rparr>)"
| "onEnter (CastingState castTimer) c =
     (let c1 = setMoveSpeed 0 (c\<lparr>currentState := Some (CastingState 0)\<rparr>)
      in if mana c1 < manaCost then setState ''idle'' c1 else c1)"
  by pat_completeness auto
termination
  apply (relation "measure (\<lambda>a. case a of
           Inl (stateName, c) \<Rightarrow> (if stateName = ''casting'' then 3 else 1)
         | Inr (inst, c) \<Rightarrow> (case inst of CastingState t \<Rightarrow> 2 | _ \<Rightarrow> 0))")
   apply (auto simp: states_def createState_def split: if_splits CharacterState.splits)
  done

subsection \<open>Input handlers and updates of the five states\<close>

text \<open>
  The input codes are those of the source: 65 and 68 move left and right, 32 jumps,
  74 attacks, 75 casts, 0 is "no input". A \<^verbatim>\<open>switch\<close> without a matching case does
  nothing.
\<close>

fun CharacterState_handleInput :: "CharacterState \<Rightarrow> int \<Rightarrow> StateCharacter \<Rightarrow> StateCharacter" where
  "CharacterState_handleInput IdleState inputCode c =
     (if inputCode = 65 \<or> inputCode = 68 then setState ''walking'' c
      else if inputCode = 32 then (if isGrounded c then setState ''jumping'' c else c)
      else if inputCode = 74 then setState ''attacking'' c
      else if inputCode = 75 then (if mana c \<ge> 10 then setState ''casting'' c else c)
      else c)"
| "CharacterState_handleInput WalkingState inputCode c =
     (if inputCode = 65 then move (fmul (- walkSpeed) float_0_016) 0 c
      else if inputCode = 68 then move (fmul walkSpeed float_0_016) 0 c
      else if inputCode = 32 then (if isGrounded c then setState ''jumping'' c else c)
      else if inputCode = 74 then setState ''attacking'' c
      else if inputCode = 0 then setState ''idle'' c
      else c)"
| "CharacterState_handleInput JumpingState inputCode c =
     (if inputCode = 65 then move (fmul (- 50) float_0_016) 0 c
      else if inputCode = 68 then move (fmul 50 float_0_016) 0 c
      else if inputCode = 74 then setState ''attacking'' c
      else c)"
| "CharacterState_handleInput (AttackingState attackTimer) inputCode c = c"
| "CharacterState_handleInput (CastingState castTimer) inputCode c =
     (if inputCode = 65 \<or> inputCode = 68 then setState ''walking'' c else c)"

definition castSpell :: "StateCharacter \<Rightarrow> StateCharacter" where
  "castSpell c = setMana (mana c - manaCost) c"

text \<open>
  The update of a state runs on the object that is \<^verbatim>\<open>currentState\<close>; the
  timer it advances is written back to that field before anything else happens.
\<close>

fun CharacterState_update :: "CharacterState \<Rightarrow> real \<Rightarrow> StateCharacter \<Rightarrow> StateCharacter" where
  "CharacterState_update IdleState deltaTime c =
     (let currentMana = mana c
      in if currentMana < 50
         then setMana (currentMana + static_cast_int (5 * deltaTime)) c
         else c)"
| "CharacterState_update WalkingState deltaTime c = c"
| "CharacterState_update JumpingState deltaTime c =
     (let currentVelocity = fadd (jumpVelocity c) (fmul gravity deltaTime);
          c1 = setJumpVelocity currentVelocity c;
          c2 = move 0 (fmul currentVelocity deltaTime) c1
      in if c_y c2 \<le> 0
         then setState ''idle'' (setJumpVelocity 0 (setGrounded True (setPosition (c_x c2) 0 c2)))
         else c2)"
| "CharacterState_update (AttackingState attackTimer) deltaTime c =
     (let c1 = c\<lparr>currentState := Some (AttackingState (attackTimer + deltaTime))\<rparr>
      in if attackTimer + deltaTime \<ge> attackDuration
         then (if isGrounded c1 then setState ''idle'' c1 else setState ''jumping'' c1)
         else c1)"
| "CharacterState_update (CastingState castTimer) deltaTime c =
     (let c1 = c\<lparr>currentState := Some (CastingState (castTimer + deltaTime))\<rparr>
      in if castTimer + deltaTime \<ge> castDuration
         then setState ''idle'' (castSpell c1)
         else c1)"

definition handleInput :: "int \<Rightarrow> StateCharacter \<Rightarrow> StateCharacter" where
  "handleInput inputCode c =
     (case currentState c of
        None \<Rightarrow> c
      | Some s \<Rightarrow> CharacterState_handleInput s inputCode c)"

definition update :: "real \<Rightarrow> StateCharacter \<Rightarrow> StateCharacter" where
  "update deltaTime c =
     (case currentState c of
        None \<Rightarrow> c
      | Some s \<Rightarrow> CharacterState_update s deltaTime c)"

text \<open>The constructor: the member initialisers, then \<^verbatim>\<open>setState("idle")\<close>.\<close>

definition newStateCharacter :: "string \<Rightarrow> StateCharacter" where
  "newStateCharacter charName =
     setState ''idle''
       \<lparr>currentState = None, c_name = charName, c_x = 0, c_y = 0,
        c_health = 100, c_maxHealth = 100, moveSpeed = 100, isGrounded = True,
        jumpVelocity = 0, mana = 50, maxMana = 50\<rparr>"

text \<open>A driver that only calls \<^verbatim>\<open>update\<close>, once for each time step of a list.\<close>

fun updates :: "real list \<Rightarrow> StateCharacter \<Rightarrow> StateCharacter" where
  "updates [] c = c"
| "updates (deltaTime # rest) c = updates rest (update deltaTime c)"

section \<open>The behaviour selector (strategy.h)\<close>

subsection \<open>Data\<close>

text \<open>
  The six behaviour classes the controller chooses from. \<^verbatim>\<open>PatrolBehavior\<close>
  carries its waypoints, \<^verbatim>\<open>AttackBehavior\<close> its \<^verbatim>\<open>lastAttackTime\<close> and
  \<^verbatim>\<open>DefendBehavior\<close> its \<^verbatim>\<open>defendTimer\<close>. The classes \<^verbatim>\<open>EasyAI\<close> and
  \<^verbatim>\<open>HardAI\<close> are installed only by \<^verbatim>\<open>BattleManager::createEnemies\<close> and are
  not part of the controller; they are not embedded.
\<close>

datatype AIBehavior =
    PatrolBehavior "(real \<times> real) list"
  | ChaseBehavior
  | AttackBehavior real
  | FleeBehavior
  | DefendBehavior real
  | BerserkBehavior

definition attackCooldown :: real where "attackCooldown = 1"
definition defendDuration :: real where "defendDuration = 2"

record AIEnemy =
  e_name :: string
  e_x :: real
  e_y :: real
  e_health :: int
  e_maxHealth :: int
  speed :: real
  detectionRange :: real
  attackRange :: real
  currentBehavior :: "AIBehavior option"
  targetX :: real
  targetY :: real
  hasTarget :: bool

text \<open>
  The behaviour names are Chinese string literals in the source. Each is given here by the
  UTF-8 bytes of the literal, in the order patrol, chase, attack, flee, defend, berserk, and
  the name reported when there is no behaviour.
\<close>

definition name_patrol :: string where
  "name_patrol = [CHR 0xE5, CHR 0xB7, CHR 0xA1, CHR 0xE9, CHR 0x80, CHR 0xBB]"
definition name_chase :: string where
  "name_chase = [CHR 0xE8, CHR 0xBF, CHR 0xBD, CHR 0xE5, CHR 0x87, CHR 0xBB]"
definition name_attack :: string where
  "name_attack = [CHR 0xE6, CHR 0x94, CHR 0xBB, CHR 0xE5, CHR 0x87, CHR 0xBB]"
definition name_flee :: string where
  "name_flee = [CHR 0xE9, CHR 0x80, CHR 0x83, CHR 0xE8, CHR 0xB7, CHR 0x91]"
definition name_defend :: string where
  "name_defend = [CHR 0xE9, CHR 0x98, CHR 0xB2, CHR 0xE5, CHR 0xBE, CHR 0xA1]"
definition name_berserk :: string where
  "name_berserk = [CHR 0xE7, CHR 0x8B, CHR 0x82, CHR 0xE6, CHR 0x9A, CHR 0xB4]"
definition name_none :: string where
  "name_none = [CHR 0xE6, CHR 0x97, CHR 0xA0, CHR 0xE8, CHR 0xA1, CHR 0x8C, CHR 0xE4, CHR 0xB8, CHR 0xBA]"

subsection \<open>The enemy\<close>

definition newAIEnemy :: "string \<Rightarrow> real \<Rightarrow> real \<Rightarrow> AIEnemy" where
  "newAIEnemy enemyName posX posY =
     \<lparr>e_name = enemyName, e_x = posX, e_y = posY, e_health = 100, e_maxHealth = 100,
      speed = 50, detectionRange = 100, attackRange = 30, currentBehavior = None,
      targetX = 0, targetY = 0, hasTarget = False\<rparr>"

definition setBehavior :: "AIBehavior option \<Rightarrow> AIEnemy \<Rightarrow> AIEnemy" where
  "setBehavior behavior e = e\<lparr>currentBehavior := behavior\<rparr>"

definition takeDamage :: "int \<Rightarrow> AIEnemy \<Rightarrow> AIEnemy" where
  "takeDamage damage e = e\<lparr>e_health := max 0 (e_health e - damage)\<rparr>"


definition setSpeed :: "real \<Rightarrow> AIEnemy \<Rightarrow> AIEnemy" where
  "setSpeed newSpeed e = e\<lparr>speed := newSpeed\<rparr>"

definition setTarget :: "real \<Rightarrow> real \<Rightarrow> AIEnemy \<Rightarrow> AIEnemy" where
  "setTarget tX tY e = e\<lparr>targetX := tX, targetY := tY, hasTarget := True\<rparr>"

definition clearTarget :: "AIEnemy \<Rightarrow> AIEnemy" where
  "clearTarget e = e\<lparr>hasTarget := False\<rparr>"

definition getDistanceToTarget :: "AIEnemy \<Rightarrow> real" where
  "getDistanceToTarget e =
     (if \<not> hasTarget e then - 1
      else let dx = targetX e - e_x e; dy = targetY e - e_y e
           in sqrt (dx * dx + dy * dy))"

definition moveTowards :: "real \<Rightarrow> real \<Rightarrow> real \<Rightarrow> AIEnemy \<Rightarrow> AIEnemy" where
  "moveTowards tX tY deltaTime e =
     (let dx = tX - e_x e; dy = tY - e_y e; distance = sqrt (dx * dx + dy * dy)
      in if distance > 1
         then e\<lparr>e_x := e_x e + dx / distance * speed e * deltaTime,
                e_y := e_y e + dy / distance * speed e * deltaTime\<rparr>
         else e)"

text \<open>
  \<^verbatim>\<open>AIEnemy::patrol\<close> keeps its waypoint index in a function-local
  \<^verbatim>\<open>static size_t currentWaypoint\<close>: one variable for the whole program, initialised
  to 0 once. It is passed in and returned beside the enemy; \<^verbatim>\<open>size_t\<close> is taken to
  have 64 bits.
\<close>

definition patrol :: "(real \<times> real) list \<Rightarrow> real \<Rightarrow> AIEnemy \<Rightarrow> nat \<Rightarrow> AIEnemy \<times> nat" where
  "patrol waypoints deltaTime e currentWaypoint =
     (if waypoints \<noteq> []
      then let target = waypoints ! (currentWaypoint mod length waypoints);
               e1 = moveTowards (fst target) (snd target) deltaTime e;
               dx = fst target - e_x e1;
               dy = snd target - e_y e1
           in if dx * dx + dy * dy < 25
              then (e1, (currentWaypoint + 1) mod 2 ^ 64)
              else (e1, currentWaypoint)
      else (e, currentWaypoint))"

text \<open>The body of \<^verbatim>\<open>AIEnemy::attack\<close> is empty.\<close>

definition attack :: "AIEnemy \<Rightarrow> AIEnemy" where
  "attack e = e"

definition flee :: "real \<Rightarrow> real \<Rightarrow> real \<Rightarrow> AIEnemy \<Rightarrow> AIEnemy" where
  "flee fromX fromY deltaTime e =
     (let dx = e_x e - fromX; dy = e_y e - fromY; distance = sqrt (dx * dx + dy * dy)
      in if distance > 0
         then e\<lparr>e_x := e_x e + dx / distance * speed e * (3 / 2) * deltaTime,
                e_y := e_y e + dy / distance * speed e * (3 / 2) * deltaTime\<rparr>
         else e)"

subsection \<open>The behaviours\<close>

fun getBehaviorName :: "AIBehavior \<Rightarrow> string" where
  "getBehaviorName (PatrolBehavior waypoints) = name_patrol"
| "getBehaviorName ChaseBehavior = name_chase"
| "getBehaviorName (AttackBehavior lastAttackTime) = name_attack"
| "getBehaviorName FleeBehavior = name_flee"
| "getBehaviorName (DefendBehavior defendTimer) = name_defend"
| "getBehaviorName BerserkBehavior = name_berserk"

definition getCurrentBehaviorName :: "AIEnemy \<Rightarrow> string" where
  "getCurrentBehaviorName e =
     (case currentBehavior e of Some b \<Rightarrow> getBehaviorName b | None \<Rightarrow> name_none)"

fun canExecute :: "AIBehavior \<Rightarrow> AIEnemy \<Rightarrow> bool" where
  "canExecute (PatrolBehavior waypoints) e = (e_health e > 0)"
| "canExecute ChaseBehavior e =
     (e_health e > 0 \<and> hasTarget e \<and> getDistanceToTarget e > attackRange e)"
| "canExecute (AttackBehavior lastAttackTime) e =
     (e_health e > 0 \<and> hasTarget e \<and> getDistanceToTarget e \<le> attackRange e)"
| "canExecute FleeBehavior e =
     (e_health e > 0 \<and> real_of_int (e_health e) / real_of_int (e_maxHealth e) < 3 / 10)"
| "canExecute (DefendBehavior defendTimer) e =
     (let healthPercent = real_of_int (e_health e) / real_of_int (e_maxHealth e)
      in e_health e > 0 \<and> healthPercent \<ge> 3 / 10 \<and> healthPercent \<le> 6 / 10)"
| "canExecute BerserkBehavior e =
     (e_health e > 0 \<and> real_of_int (e_health e) / real_of_int (e_maxHealth e) < 2 / 10)"

text \<open>
  \<^verbatim>\<open>execute\<close> runs on the behaviour object the enemy owns, so a timer it assigns is
  written to the \<open>currentBehavior\<close> field. The fourth argument and the second component
  of the result are the static waypoint index.
\<close>

fun execute :: "AIBehavior \<Rightarrow> real \<Rightarrow> AIEnemy \<Rightarrow> nat \<Rightarrow> AIEnemy \<times> nat" where
  "execute (PatrolBehavior waypoints) deltaTime e w = patrol waypoints deltaTime e w"
| "execute ChaseBehavior deltaTime e w =
     (if hasTarget e then (moveTowards (targetX e) (targetY e) deltaTime e, w) else (e, w))"
| "execute (AttackBehavior lastAttackTime) deltaTime e w =
     (if lastAttackTime + deltaTime \<ge> attackCooldown
      then ((attack e)\<lparr>currentBehavior := Some (AttackBehavior 0)\<rparr>, w)
      else (e\<lparr>currentBehavior := Some (AttackBehavior (lastAttackTime + deltaTime))\<rparr>, w))"
| "execute FleeBehavior deltaTime e w =
     (if hasTarget e then (flee (targetX e) (targetY e) deltaTime e, w) else (e, w))"
| "execute (DefendBehavior defendTimer) deltaTime e w =
     (let e1 = setSpeed (speed e * (1 / 2))
                 (e\<lparr>currentBehavior := Some (DefendBehavior (defendTimer + deltaTime))\<rparr>)
      in if defendTimer + deltaTime \<ge> defendDuration
         then (e1\<lparr>currentBehavior := Some (DefendBehavior 0)\<rparr>, w)
         else (e1, w))"
| "execute BerserkBehavior deltaTime e w =
     (let e1 = setSpeed (speed e * (3 / 2)) e
      in if hasTarget e1
         then let e2 = moveTowards (targetX e1) (targetY e1) deltaTime e1
              in if getDistanceToTarget e2 \<le> attackRange e2 then (attack e2, w) else (e2, w)
         else (e1, w))"

definition AIEnemy_update :: "real \<Rightarrow> AIEnemy \<Rightarrow> nat \<Rightarrow> AIEnemy \<times> nat" where
  "AIEnemy_update deltaTime e w =
     (case currentBehavior e of
        None \<Rightarrow> (e, w)
      | Some b \<Rightarrow> if canExecute b e then execute b deltaTime e w else (e, w))"

subsection \<open>The controller\<close>

text \<open>
  The controller holds a pointer to the enemy it controls; the record holds the enemy
  itself, and an operation applied to that enemy from outside is an update of the field.
\<close>

record StrategyAIController =
  controlledEnemy :: AIEnemy
  availableBehaviors :: "AIBehavior list"
  behaviorUpdateInterval :: real
  timeSinceLastUpdate :: real

definition defaultWaypoints :: "(real \<times> real) list" where
  "defaultWaypoints = [(0, 0), (100, 0), (100, 100), (0, 100)]"

definition initializeBehaviors :: "StrategyAIController \<Rightarrow> StrategyAIController" where
  "initializeBehaviors ctl =
     ctl\<lparr>availableBehaviors :=
           availableBehaviors ctl @
             [PatrolBehavior defaultWaypoints, ChaseBehavior, AttackBehavior 0,
              FleeBehavior, DefendBehavior 0, BerserkBehavior],
         controlledEnemy :=
           setBehavior (Some (PatrolBehavior defaultWaypoints)) (controlledEnemy ctl)\<rparr>"

definition newStrategyAIController :: "AIEnemy \<Rightarrow> StrategyAIController" where
  "newStrategyAIController enemy =
     initializeBehaviors
       \<lparr>controlledEnemy = enemy, availableBehaviors = [],
        behaviorUpdateInterval = 1, timeSinceLastUpdate = 0\<rparr>"

text \<open>
  The loop of \<^verbatim>\<open>selectBestBehavior\<close> over \<^verbatim>\<open>availableBehaviors\<close>. A
  \<^verbatim>\<open>break\<close> ends the recursion; every other path goes on with the rest of the list:
  a candidate that cannot execute, a candidate with the name of the current behaviour, and
  a candidate whose name none of the five branches tests (patrol).
\<close>

fun selectLoop :: "AIBehavior list \<Rightarrow> AIEnemy \<Rightarrow> AIEnemy" where
  "selectLoop [] e = e"
| "selectLoop (behavior # rest) e =
     (if canExecute behavior e
      then let currentBehaviorName = getCurrentBehaviorName e;
               newBehavior = getBehaviorName behavior
           in if currentBehaviorName \<noteq> newBehavior
              then if newBehavior = name_flee then setBehavior (Some FleeBehavior) e
                   else if newBehavior = name_berserk then setBehavior (Some BerserkBehavior) e
                   else if newBehavior = name_attack then setBehavior (Some (AttackBehavior 0)) e
                   else if newBehavior = name_defend then setBehavior (Some (DefendBehavior 0)) e
                   else if newBehavior = name_chase then setBehavior (Some ChaseBehavior) e
                   else selectLoop rest e
              else selectLoop rest e
      else selectLoop rest e)"

definition selectBestBehavior :: "StrategyAIController \<Rightarrow> StrategyAIController" where
  "selectBestBehavior ctl =
     ctl\<lparr>controlledEnemy := selectLoop (availableBehaviors ctl) (controlledEnemy ctl)\<rparr>"

definition StrategyAIController_update ::
  "real \<Rightarrow> StrategyAIController \<Rightarrow> nat \<Rightarrow> StrategyAIController \<times> nat" where
  "StrategyAIController_update deltaTime ctl w =
     (let ctl1 = ctl\<lparr>timeSinceLastUpdate := timeSinceLastUpdate ctl + deltaTime\<rparr>;
          ctl2 = (if timeSinceLastUpdate ctl1 \<ge> behaviorUpdateInterval ctl1
                  then (selectBestBehavior ctl1)\<lparr>timeSinceLastUpdate := 0\<rparr>
                  else ctl1);
          (e, w') = AIEnemy_update deltaTime (controlledEnemy ctl2) w
      in (ctl2\<lparr>controlledEnemy := e\<rparr>, w'))"

definition forceBehavior :: "string \<Rightarrow> StrategyAIController \<Rightarrow> StrategyAIController" where
  "forceBehavior behaviorName ctl =
     (if behaviorName = name_patrol
      then ctl\<lparr>controlledEnemy :=
                 setBehavior (Some (PatrolBehavior defaultWaypoints)) (controlledEnemy ctl)\<rparr>
      else if behaviorName = name_chase
      then ctl\<lparr>controlledEnemy := setBehavior (Some ChaseBehavior) (controlledEnemy ctl)\<rparr>
      else if behaviorName = name_attack
      then ctl\<lparr>controlledEnemy := setBehavior (Some (AttackBehavior 0)) (controlledEnemy ctl)\<rparr>
      else if behaviorName = name_flee
      then ctl\<lparr>controlledEnemy := setBehavior (Some FleeBehavior) (controlledEnemy ctl)\<rparr>
      else if behaviorName = name_defend
      then ctl\<lparr>controlledEnemy := setBehavior (Some (DefendBehavior 0)) (controlledEnemy ctl)\<rparr>
      else if behaviorName = name_berserk
      then ctl\<lparr>controlledEnemy := setBehavior (Some BerserkBehavior) (controlledEnemy ctl)\<rparr>
      else ctl)"

section \<open>Reference computations and scenarios\<close>

subsection \<open>Direct integration of a jump\<close>

text \<open>
  The recurrence of the specification, independent of the program: one step takes the
  pair (vertical velocity, height) to \<open>v + g * dt\<close> and \<open>y + (v + g * dt) * dt\<close>,
  each sum and product being the binary32 one. \<open>trajectory\<close> iterates it over a list of
  time steps, and \<open>airborne\<close> says that the height it computes is positive after every
  one of these steps.
\<close>

definition integrate :: "real \<times> real \<Rightarrow> real \<Rightarrow> real \<times> real" where
  "integrate vy dt =
     (fadd (fst vy) (fmul gravity dt),
      fadd (snd vy) (fmul (fadd (fst vy) (fmul gravity dt)) dt))"

fun trajectory :: "real \<times> real \<Rightarrow> real list \<Rightarrow> real \<times> real" where
  "trajectory vy [] = vy"
| "trajectory vy (dt # dts) = trajectory (integrate vy dt) dts"

fun airborne :: "real \<times> real \<Rightarrow> real list \<Rightarrow> bool" where
  "airborne vy [] = True"
| "airborne vy (dt # dts) = (snd (integrate vy dt) > 0 \<and> airborne (integrate vy dt) dts)"

subsection \<open>Characters reached through the public interface\<close>

text \<open>
  A new character; the same after the key D, after the space key, and after a completed
  cast (key K, then 1.1 time units); with the mana set to 5; and attacking in the air
  (space, 0.1 time units of flight, key J).
\<close>

definition idle_player :: StateCharacter where
  "idle_player = newStateCharacter ''player''"

definition walker :: StateCharacter where
  "walker = handleInput 68 idle_player"

definition jumper :: StateCharacter where
  "jumper = handleInput 32 idle_player"

definition spent_caster :: StateCharacter where
  "spent_caster = update (11 / 10) (handleInput 75 idle_player)"

definition drained_player :: StateCharacter where
  "drained_player = setMana 5 idle_player"

definition airborne_attacker :: StateCharacter where
  "airborne_attacker = handleInput 74 (update (1 / 10) jumper)"

subsection \<open>Controllers reached through the public interface\<close>

text \<open>
  Code outside the controller reaches the controlled enemy through its own pointer
  (\<^verbatim>\<open>BattleManager::damageEnemies\<close>, \<^verbatim>\<open>setTarget\<close>); \<open>onEnemy\<close> applies such an
  operation to the enemy inside the controller record.
\<close>

definition onEnemy ::
  "(AIEnemy \<Rightarrow> AIEnemy) \<Rightarrow> StrategyAIController \<Rightarrow> StrategyAIController" where
  "onEnemy f ctl = ctl\<lparr>controlledEnemy := f (controlledEnemy ctl)\<rparr>"

text \<open>A new controller for a new enemy at the origin, and one for an enemy at (50, 0).\<close>

definition fresh_controller :: StrategyAIController where
  "fresh_controller = newStrategyAIController (newAIEnemy ''enemy'' 0 0)"

definition second_controller :: StrategyAIController where
  "second_controller = newStrategyAIController (newAIEnemy ''enemy2'' 50 0)"

text \<open>The enemy has a target 50 units away and has taken 85 damage: 15 of 100 health.\<close>

definition wounded_with_target :: StrategyAIController where
  "wounded_with_target = onEnemy (takeDamage 85) (onEnemy (setTarget 50 0) fresh_controller)"

text \<open>
  The enemy has a target 10 units away; after updates of 1 and 0.5 time units it is in the
  attack behaviour, half way through the cooldown. Then it takes 50 damage.
\<close>

definition attacker :: StrategyAIController where
  "attacker =
     fst (StrategyAIController_update (1 / 2)
            (fst (StrategyAIController_update 1
                    (onEnemy (setTarget 10 0) fresh_controller) 0)) 0)"

definition hurt_attacker :: StrategyAIController where
  "hurt_attacker = onEnemy (takeDamage 50) attacker"



text \<open>The enemy takes 50 damage and is forced into a new defend behaviour.\<close>

definition new_defender :: StrategyAIController where
  "new_defender = forceBehavior name_defend (onEnemy (takeDamage 50) fresh_controller)"

text \<open>
  One frame of patrol with the static waypoint index at its initial value 0, and the same
  controller forced to chase and back to patrol afterwards.
\<close>

definition patrol_step :: "StrategyAIController \<times> nat" where
  "patrol_step = StrategyAIController_update (16 / 1000) fresh_controller 0"

definition back_on_patrol :: StrategyAIController where
  "back_on_patrol = forceBehavior name_patrol (forceBehavior name_chase (fst patrol_step))"

section \<open>Properties of the character state machine\<close>

subsection \<open>Evaluating a rounding\<close>

lemma expo_search_found:
  "e \<le> e0 \<Longrightarrow> e0 - e \<le> int n \<Longrightarrow> power_int 2 e \<le> a \<Longrightarrow> a < power_int 2 (e + 1) \<Longrightarrow>
   expo_search n e0 a = e"
proof (induction n arbitrary: e0)
  case 0
  then show ?case by simp
next
  case (Suc n)
  show ?case
  proof (cases "power_int 2 e0 \<le> a")
    case True
    have "\<not> e + 1 \<le> e0"
    proof
      assume "e + 1 \<le> e0"
      then have "power_int (2::real) (e + 1) \<le> power_int 2 e0"
        by (intro power_int_increasing) simp_all
      with True Suc.prems(4) show False by simp
    qed
    with Suc.prems(1) have "e0 = e" by simp
    with True show ?thesis by simp
  next
    case False
    with Suc.prems(3) have "e \<noteq> e0" by auto
    with Suc.prems(1,2) have "e \<le> e0 - 1" "e0 - 1 - e \<le> int n" by simp_all
    from Suc.IH[OF this Suc.prems(3,4)] False show ?thesis by simp
  qed
qed

lemma expo_search_bottom:
  "a < power_int 2 (e0 - int n + 1) \<Longrightarrow> expo_search n e0 a = e0 - int n"
proof (induction n arbitrary: e0)
  case 0
  then show ?case by simp
next
  case (Suc n)
  have "power_int (2::real) (e0 - int (Suc n) + 1) \<le> power_int 2 e0"
    by (intro power_int_increasing) simp_all
  with Suc.prems have no: "\<not> power_int 2 e0 \<le> a" by simp
  from Suc.prems have "a < power_int 2 (e0 - 1 - int n + 1)" by (simp add: algebra_simps)
  from Suc.IH[OF this] no show ?case by simp
qed

lemma float_round_binade:
  "- 126 \<le> e \<Longrightarrow> e \<le> 127 \<Longrightarrow> power_int 2 e \<le> \<bar>x\<bar> \<Longrightarrow> \<bar>x\<bar> < power_int 2 (e + 1) \<Longrightarrow>
   float_round x =
     real_of_int (round_half_even (x / power_int 2 (e - 23))) * power_int 2 (e - 23)"
  using expo_search_found[of e 127 253 "\<bar>x\<bar>"]
  by (simp add: float_round_def float_exponent_def Let_def)

lemma float_round_subnormal:
  "\<bar>x\<bar> < power_int 2 (- 126) \<Longrightarrow>
   float_round x =
     real_of_int (round_half_even (x / power_int 2 (- 149))) * power_int 2 (- 149)"
  using expo_search_bottom[of "\<bar>x\<bar>" 127 253]
  by (simp add: float_round_def float_exponent_def Let_def)

lemma float_round_0: "float_round 0 = 0"
  by (simp add: float_round_subnormal round_half_even_def)

lemma fadd_0_right: "float_round x = x \<Longrightarrow> fadd x 0 = x"
  by (simp add: fadd_def)

text \<open>
  The rounding rule at each binade in which the scenarios below round a number.
\<close>

lemmas float_round_at =
  float_round_binade[of "- 18"] float_round_binade[of "- 4"] float_round_binade[of "- 3"]
  float_round_binade[of "- 2"] float_round_binade[of "- 1"] float_round_binade[of 0]
  float_round_binade[of 1] float_round_binade[of 2] float_round_binade[of 3]
  float_round_binade[of 4] float_round_binade[of 5] float_round_binade[of 6]
  float_round_binade[of 7] float_round_binade[of 8]

lemma float_0_016_eq: "float_0_016 = 8589935 / 536870912"
  by (simp add: float_0_016_def float_round_binade[of "- 6"] round_half_even_def)

subsection \<open>The registry and the scenarios, evaluated\<close>

lemma states_createState:
  "states stateName =
     (case createState stateName of None \<Rightarrow> None | Some inst \<Rightarrow> Some (Some inst))"
  by (simp add: states_def createState_def)

lemma getStateName_createState:
  "createState stateName = Some inst \<Longrightarrow> getStateName inst = stateName"
  by (auto simp: createState_def split: if_splits)

lemma setState_idle_from:
  "(case currentState c of None \<Rightarrow> True | Some cur \<Rightarrow> canTransitionTo cur ''idle'') \<Longrightarrow>
   setState ''idle'' c =
     (case currentState c of None \<Rightarrow> c | Some cur \<Rightarrow> onExit cur c)
       \<lparr>currentState := Some IdleState, moveSpeed := 0\<rparr>"
  by (simp add: states_createState createState_def setMoveSpeed_def)

lemma idle_player_eq:
  "idle_player =
     \<lparr>currentState = Some IdleState, c_name = ''player'', c_x = 0, c_y = 0,
      c_health = 100, c_maxHealth = 100, moveSpeed = 0, isGrounded = True,
      jumpVelocity = 0, mana = 50, maxMana = 50\<rparr>"
  by (simp add: idle_player_def newStateCharacter_def states_createState createState_def
      setMoveSpeed_def)

lemma walker_eq:
  "walker = idle_player\<lparr>currentState := Some WalkingState, moveSpeed := 100\<rparr>"
  by (simp add: walker_def handleInput_def idle_player_eq states_createState createState_def
      setMoveSpeed_def walkSpeed_def)

lemma jumper_eq:
  "jumper = idle_player\<lparr>currentState := Some JumpingState, isGrounded := False,
                         jumpVelocity := 300\<rparr>"
  by (simp add: jumper_def handleInput_def idle_player_eq states_createState createState_def
      setJumpVelocity_def setGrounded_def jumpForce_def)

lemma spent_caster_eq: "spent_caster = idle_player\<lparr>mana := 40\<rparr>"
  by (simp add: spent_caster_def handleInput_def update_def idle_player_eq states_createState
      createState_def setMoveSpeed_def manaCost_def castDuration_def castSpell_def setMana_def
      Let_def)

lemma drained_player_eq: "drained_player = idle_player\<lparr>mana := 5\<rparr>"
  by (simp add: drained_player_def setMana_def idle_player_eq)

lemma airborne_attacker_eq:
  "airborne_attacker =
     idle_player\<lparr>currentState := Some (AttackingState 0), isGrounded := False,
                  jumpVelocity := 250, c_y := 25\<rparr>"
  by (simp add: airborne_attacker_def jumper_eq handleInput_def update_def idle_player_eq
      states_createState createState_def setMoveSpeed_def setJumpVelocity_def move_def
      gravity_def Let_def fadd_def fmul_def float_round_0 float_round_at round_half_even_def)

subsection \<open>The guard of setState\<close>

lemma onEnter_name:
  "stateName \<noteq> ''casting'' \<or> manaCost \<le> mana c \<Longrightarrow>
   createState stateName = Some inst \<Longrightarrow> currentState c = Some inst \<Longrightarrow>
   getCurrentStateName (onEnter inst c) = stateName"
  by (auto simp: createState_def getCurrentStateName_def setMoveSpeed_def setJumpVelocity_def
      setGrounded_def Let_def split: if_splits)

lemma mana_onExit:
  "mana (case currentState c of None \<Rightarrow> c | Some cur \<Rightarrow> onExit cur c) = mana c"
  by (cases "currentState c"; simp) (rename_tac cur, case_tac cur; simp add: setMoveSpeed_def)

text \<open>
  Claim C4. For every name and every character, \<open>setState\<close> performs the transition
  exactly when the name is a key of the registry and there is no current state or the
  current state's \<open>canTransitionTo\<close> accepts the name. Then the registry yields an
  instance with that name, and the result is the enter hook of that instance run on the
  character after the exit hook of the old state and the swap; unless the name is
  \<open>casting\<close> and the mana is below 10, the character ends in the state asked for. In
  every other case the call returns the character as it was, timers included; there is no
  error value.
\<close>

theorem setState_transition_guard:
  "(states stateName \<noteq> None \<and>
      (currentState c = None \<or>
       (\<exists>cur. currentState c = Some cur \<and> canTransitionTo cur stateName))
    \<longrightarrow> (\<exists>inst. createState stateName = Some inst \<and> getStateName inst = stateName \<and>
           setState stateName c =
             onEnter inst
               ((case currentState c of None \<Rightarrow> c | Some cur \<Rightarrow> onExit cur c)
                  \<lparr>currentState := Some inst\<rparr>)) \<and>
        (stateName \<noteq> ''casting'' \<or> 10 \<le> mana c
           \<longrightarrow> getCurrentStateName (setState stateName c) = stateName))
   \<and> (\<not> (states stateName \<noteq> None \<and>
          (currentState c = None \<or>
           (\<exists>cur. currentState c = Some cur \<and> canTransitionTo cur stateName)))
        \<longrightarrow> setState stateName c = c)"
proof (intro conjI impI)
  assume g: "states stateName \<noteq> None \<and>
      (currentState c = None \<or>
       (\<exists>cur. currentState c = Some cur \<and> canTransitionTo cur stateName))"
  then obtain inst where inst: "createState stateName = Some inst"
    by (auto simp: states_createState split: option.splits)
  from g have ok:
    "(case currentState c of None \<Rightarrow> True | Some cur \<Rightarrow> canTransitionTo cur stateName)"
    by (auto split: option.splits)
  let ?c1 = "(case currentState c of None \<Rightarrow> c | Some cur \<Rightarrow> onExit cur c)
               \<lparr>currentState := Some inst\<rparr>"
  have eq: "setState stateName c = onEnter inst ?c1"
    using inst ok by (simp add: states_createState)
  show "\<exists>inst. createState stateName = Some inst \<and> getStateName inst = stateName \<and>
           setState stateName c =
             onEnter inst
               ((case currentState c of None \<Rightarrow> c | Some cur \<Rightarrow> onExit cur c)
                  \<lparr>currentState := Some inst\<rparr>)"
    using inst eq getStateName_createState[OF inst] by blast
  assume m: "stateName \<noteq> ''casting'' \<or> 10 \<le> mana c"
  have "mana ?c1 = mana c" using mana_onExit[of c] by simp
  with m have "stateName \<noteq> ''casting'' \<or> manaCost \<le> mana ?c1" by (simp add: manaCost_def)
  from onEnter_name[OF this inst] show "getCurrentStateName (setState stateName c) = stateName"
    by (simp only: eq) simp
next
  assume "\<not> (states stateName \<noteq> None \<and>
      (currentState c = None \<or>
       (\<exists>cur. currentState c = Some cur \<and> canTransitionTo cur stateName)))"
  then show "setState stateName c = c"
    by (auto split: option.splits)
qed

text \<open>
  The three cases at concrete characters: an accepted transition (idle to walking), a
  registered name the guard refuses (walking to casting), and an unregistered name.
\<close>

theorem setState_transition_guard_witness:
  "states ''walking'' \<noteq> None \<and> currentState idle_player = Some IdleState \<and>
   canTransitionTo IdleState ''walking'' \<and>
   setState ''walking'' idle_player =
     idle_player\<lparr>currentState := Some WalkingState, moveSpeed := 100\<rparr> \<and>
   getCurrentStateName (setState ''walking'' idle_player) = ''walking'' \<and>
   currentState walker = Some WalkingState \<and> \<not> canTransitionTo WalkingState ''casting'' \<and>
   setState ''casting'' walker = walker \<and>
   states ''flying'' = None \<and> setState ''flying'' walker = walker"
  using setState_transition_guard [of "''walking''" idle_player]
    setState_transition_guard [of "''casting''" walker]
    setState_transition_guard [of "''flying''" walker]
  by (simp add: states_createState createState_def idle_player_eq walker_eq
      getCurrentStateName_def setMoveSpeed_def walkSpeed_def del: setState.simps)

subsection \<open>Casting without mana\<close>

text \<open>
  Claim C6. When the mana is below the cast cost of 10 and the transition to
  \<open>casting\<close> is permitted (no current state, or a current state whose guard accepts
  it), the one call \<open>setState ''casting''\<close> ends in the idle state: the character is
  the one before the call with the state set to idle and the movement speed set to 0, so
  the mana is exactly what it was.
\<close>

theorem casting_without_mana_reverts:
  assumes "mana c < 10"
    and "currentState c = None \<or>
         (\<exists>cur. currentState c = Some cur \<and> canTransitionTo cur ''casting'')"
  shows "setState ''casting'' c = c\<lparr>currentState := Some IdleState, moveSpeed := 0\<rparr>
       \<and> mana (setState ''casting'' c) = mana c
       \<and> getCurrentStateName (setState ''casting'' c) = ''idle''"
proof -
  from assms(2) have cur: "currentState c = None \<or> currentState c = Some IdleState"
    by (auto elim: canTransitionTo.elims)
  have "setState ''casting'' c = c\<lparr>currentState := Some IdleState, moveSpeed := 0\<rparr>"
    using cur assms(1)
    by (auto simp: states_createState createState_def setMoveSpeed_def manaCost_def Let_def)
  then show ?thesis by (simp add: getCurrentStateName_def)
qed

theorem casting_without_mana_reverts_witness:
  "mana drained_player < 10 \<and> currentState drained_player = Some IdleState \<and>
   canTransitionTo IdleState ''casting'' \<and>
   setState ''casting'' drained_player = drained_player \<and>
   mana (setState ''casting'' drained_player) = 5"
  using casting_without_mana_reverts [of drained_player]
  by (simp add: drained_player_eq idle_player_eq del: setState.simps)

subsection \<open>The jump\<close>

text \<open>
  The horizontal position is a binary32 number in the program, so adding 0 to it in
  \<^verbatim>\<open>move(0, ...)\<close> returns it; the lemmas ask this of the model's \<open>c_x\<close>.
\<close>

lemma jumping_step_air:
  "currentState c = Some JumpingState \<Longrightarrow> float_round (c_x c) = c_x c \<Longrightarrow>
   snd (integrate (jumpVelocity c, c_y c) dt) > 0 \<Longrightarrow>
   update dt c = c\<lparr>jumpVelocity := fst (integrate (jumpVelocity c, c_y c) dt),
                   c_y := snd (integrate (jumpVelocity c, c_y c) dt)\<rparr>"
  by (simp add: update_def integrate_def Let_def move_def setJumpVelocity_def fadd_0_right)

lemma jumping_step_land:
  "currentState c = Some JumpingState \<Longrightarrow> float_round (c_x c) = c_x c \<Longrightarrow>
   snd (integrate (jumpVelocity c, c_y c) dt) \<le> 0 \<Longrightarrow>
   update dt c = c\<lparr>currentState := Some IdleState, c_y := 0, isGrounded := True,
                   jumpVelocity := 0, moveSpeed := 0\<rparr>"
  by (simp add: update_def integrate_def Let_def move_def setJumpVelocity_def setGrounded_def
      setPosition_def setState_idle_from fadd_0_right del: setState.simps)

lemma jumping_run:
  "currentState c = Some JumpingState \<Longrightarrow> float_round (c_x c) = c_x c \<Longrightarrow>
   airborne (jumpVelocity c, c_y c) dts \<Longrightarrow>
   updates dts c = c\<lparr>jumpVelocity := fst (trajectory (jumpVelocity c, c_y c) dts),
                     c_y := snd (trajectory (jumpVelocity c, c_y c) dts)\<rparr>"
proof (induction dts arbitrary: c)
  case Nil
  then show ?case by simp
next
  case (Cons dt dts)
  let ?c1 = "update dt c"
  from Cons.prems have air: "snd (integrate (jumpVelocity c, c_y c) dt) > 0"
    and rest: "airborne (integrate (jumpVelocity c, c_y c) dt) dts" by simp_all
  have step: "?c1 = c\<lparr>jumpVelocity := fst (integrate (jumpVelocity c, c_y c) dt),
                       c_y := snd (integrate (jumpVelocity c, c_y c) dt)\<rparr>"
    using jumping_step_air[OF Cons.prems(1,2) air] .
  have st: "currentState ?c1 = Some JumpingState" using Cons.prems(1) by (simp add: step)
  have fx: "float_round (c_x ?c1) = c_x ?c1" using Cons.prems(2) by (simp add: step)
  have vy: "(jumpVelocity ?c1, c_y ?c1) = integrate (jumpVelocity c, c_y c) dt"
    by (simp add: step)
  have "updates dts ?c1 =
          ?c1\<lparr>jumpVelocity := fst (trajectory (jumpVelocity ?c1, c_y ?c1) dts),
               c_y := snd (trajectory (jumpVelocity ?c1, c_y ?c1) dts)\<rparr>"
    using Cons.IH[OF st fx] rest vy by simp
  then show ?case by (simp add: vy) (simp add: step)
qed

lemma idle_update_keeps:
  "currentState c = Some IdleState \<Longrightarrow>
   currentState (update dt c) = Some IdleState \<and> c_y (update dt c) = c_y c \<and>
   isGrounded (update dt c) = isGrounded c \<and> jumpVelocity (update dt c) = jumpVelocity c"
  by (simp add: update_def Let_def setMana_def)

lemma idle_updates_keep:
  "currentState c = Some IdleState \<Longrightarrow>
   currentState (updates dts c) = Some IdleState \<and> c_y (updates dts c) = c_y c \<and>
   isGrounded (updates dts c) = isGrounded c \<and>
   jumpVelocity (updates dts c) = jumpVelocity c"
proof (induction dts arbitrary: c)
  case Nil
  then show ?case by simp
next
  case (Cons dt dts)
  from idle_update_keeps[OF Cons.prems, of dt] Cons.IH[of "update dt c"]
  show ?case by simp
qed

lemma updates_append: "updates (xs @ ys) c = updates ys (updates xs c)"
  by (induction xs arbitrary: c) simp_all

lemma trajectory_snoc: "trajectory vy (dts @ [dt]) = integrate (trajectory vy dts) dt"
  by (induction dts arbitrary: vy) simp_all

text \<open>
  Claim C5. Take a character in the jumping state and time steps \<open>dts\<close> along which the
  directly integrated height stays positive, the integration being carried out in the
  program's binary32 arithmetic. After these updates the character differs from the
  initial one only in velocity and height, and both are the values of the recurrence
  \<open>v' = v + g * dt\<close>, \<open>y' = y + v' * dt\<close>. If one more step \<open>dt\<close> takes the
  integrated height to 0 or below, then after that update the height is 0, the character is
  grounded, the velocity is 0 and the state is idle; and after any further updates
  \<open>later\<close> the height is still 0, the velocity still 0, the character still grounded
  and idle: it lands once and does not bounce.
\<close>

theorem jumping_integration:
  assumes "currentState c = Some JumpingState"
    and "float_round (c_x c) = c_x c"
    and "airborne (jumpVelocity c, c_y c) dts"
  shows "updates dts c = c\<lparr>jumpVelocity := fst (trajectory (jumpVelocity c, c_y c) dts),
                           c_y := snd (trajectory (jumpVelocity c, c_y c) dts)\<rparr>
       \<and> (snd (trajectory (jumpVelocity c, c_y c) (dts @ [dt])) \<le> 0 \<longrightarrow>
            updates (dts @ [dt]) c =
              c\<lparr>currentState := Some IdleState, c_y := 0, isGrounded := True,
                jumpVelocity := 0, moveSpeed := 0\<rparr>
          \<and> currentState (updates (dts @ dt # later) c) = Some IdleState
          \<and> c_y (updates (dts @ dt # later) c) = 0
          \<and> isGrounded (updates (dts @ dt # later) c)
          \<and> jumpVelocity (updates (dts @ dt # later) c) = 0)"
proof (intro conjI impI)
  let ?c1 = "updates dts c"
  let ?T = "trajectory (jumpVelocity c, c_y c) dts"
  show run: "?c1 = c\<lparr>jumpVelocity := fst ?T, c_y := snd ?T\<rparr>"
    using jumping_run[OF assms] .
  assume "snd (trajectory (jumpVelocity c, c_y c) (dts @ [dt])) \<le> 0"
  then have down: "snd (integrate (jumpVelocity ?c1, c_y ?c1) dt) \<le> 0"
    by (simp add: trajectory_snoc run)
  have st: "currentState ?c1 = Some JumpingState" using assms(1) by (simp add: run)
  have fx: "float_round (c_x ?c1) = c_x ?c1" using assms(2) by (simp add: run)
  have land: "update dt ?c1 =
                ?c1\<lparr>currentState := Some IdleState, c_y := 0, isGrounded := True,
                     jumpVelocity := 0, moveSpeed := 0\<rparr>"
    using jumping_step_land[OF st fx down] .
  show landed: "updates (dts @ [dt]) c =
                  c\<lparr>currentState := Some IdleState, c_y := 0, isGrounded := True,
                    jumpVelocity := 0, moveSpeed := 0\<rparr>"
    by (simp add: updates_append land) (simp add: run)
  have split: "updates (dts @ dt # later) c = updates later (updates (dts @ [dt]) c)"
    by (simp add: updates_append)
  have idle: "currentState (updates (dts @ [dt]) c) = Some IdleState" by (simp add: landed)
  from idle_updates_keep[OF idle, of later]
  show "currentState (updates (dts @ dt # later) c) = Some IdleState"
    and "c_y (updates (dts @ dt # later) c) = 0"
    and "isGrounded (updates (dts @ dt # later) c)"
    and "jumpVelocity (updates (dts @ dt # later) c) = 0"
    by (simp_all add: split) (simp_all add: landed)
qed

text \<open>
  A jump from the ground with the initial velocity 300 at the frame time
  \<^verbatim>\<open>0.016f\<close>. The exact recurrence over the reals with the step 0.016 reaches the
  height 0 at the 74th frame. In binary32 the product of the gravity and the frame time
  rounds to -8, the velocity after 74 frames is -292 and the height is still
  \<open>7 / 2 ^ 20\<close> (about 0.0000067), so the character is still jumping; the 75th frame
  takes the height below 0 and the character lands there.
\<close>

lemma replicate_numeral_Cons:
  "replicate (numeral k) x = x # replicate (pred_numeral k) x"
  by (simp add: numeral_eq_Suc)

lemma frames_0_016:
  "trajectory (300, 0) (replicate 74 float_0_016) = (- 292, 7 / 1048576)"
  "airborne (300, 0) (replicate 74 float_0_016)"
  "integrate (- 292, 7 / 1048576) float_0_016 = (- 300, - (2516579 / 524288))"
  by (simp_all add: replicate_numeral_Cons integrate_def fadd_def fmul_def gravity_def
      float_0_016_eq float_round_at round_half_even_def)

theorem jumping_integration_witness:
  "currentState jumper = Some JumpingState \<and> float_round (c_x jumper) = c_x jumper \<and>
   jumpVelocity jumper = 300 \<and> c_y jumper = 0 \<and>
   airborne (300, 0) (replicate 74 float_0_016) \<and>
   snd (trajectory (300, 0) (replicate 74 float_0_016 @ [float_0_016])) \<le> 0 \<and>
   updates (replicate 74 float_0_016) jumper =
     jumper\<lparr>jumpVelocity := - 292, c_y := 7 / 1048576\<rparr> \<and>
   updates (replicate 74 float_0_016 @ [float_0_016]) jumper =
     jumper\<lparr>currentState := Some IdleState, c_y := 0, isGrounded := True,
            jumpVelocity := 0, moveSpeed := 0\<rparr> \<and>
   c_y (updates (replicate 74 float_0_016 @ float_0_016 # [float_0_016, float_0_016])
          jumper) = 0 \<and>
   currentState (updates (replicate 74 float_0_016 @ float_0_016 # [float_0_016, float_0_016])
                   jumper) = Some IdleState"
proof -
  have j: "currentState jumper = Some JumpingState" "float_round (c_x jumper) = c_x jumper"
    "jumpVelocity jumper = 300" "c_y jumper = 0"
    by (simp_all add: jumper_eq idle_player_eq float_round_0)
  have air: "airborne (jumpVelocity jumper, c_y jumper) (replicate 74 float_0_016)"
    by (simp only: j frames_0_016)
  have down: "snd (trajectory (300, 0) (replicate 74 float_0_016 @ [float_0_016])) \<le> 0"
    by (simp only: trajectory_snoc frames_0_016) simp
  from jumping_integration [OF j(1,2) air, of float_0_016 "[float_0_016, float_0_016]"] down
  show ?thesis
    by (simp only: j frames_0_016 fst_conv snd_conv)
qed

subsection \<open>Mana regeneration in the idle state\<close>

lemma idle_update_small_step:
  assumes "currentState c = Some IdleState" and "0 \<le> dt" and "dt < 1 / 5"
    and "0 \<le> mana c" and "mana c \<le> maxMana c"
  shows "update dt c = c"
proof -
  have "0 \<le> 5 * dt" and "5 * dt < 1" using assms(2,3) by simp_all
  then have "\<lfloor>5 * dt\<rfloor> = 0" by linarith
  then have "static_cast_int (5 * dt) = 0"
    using \<open>0 \<le> 5 * dt\<close> by (simp add: static_cast_int_def)
  then show ?thesis using assms(1,4,5) by (simp add: update_def Let_def setMana_def)
qed

lemma idle_updates_small_steps:
  assumes "currentState c = Some IdleState" and "0 \<le> dt" and "dt < 1 / 5"
    and "0 \<le> mana c" and "mana c \<le> maxMana c"
  shows "updates (replicate n dt) c = c"
  by (induction n) (simp_all add: idle_update_small_step[OF assms])

text \<open>
  Claim C7, evaluated on the program. After one completed cast the character is idle with
  40 of 50 mana. One update with the frame time 0.016 leaves the mana at 40, and so do 6000
  such updates in a row (96 time units): the amount added per call is
  \<^verbatim>\<open>static_cast<int>(5 * deltaTime)\<close>, which is 0 for every step shorter than 0.2.
\<close>

theorem idle_update_frame_no_regeneration:
  "currentState spent_caster = Some IdleState \<and> mana spent_caster = 40 \<and>
   maxMana spent_caster = 50 \<and>
   mana (update (16 / 1000) spent_caster) = 40 \<and>
   mana (updates (replicate 6000 (16 / 1000)) spent_caster) = 40"
proof -
  have a: "currentState spent_caster = Some IdleState" "mana spent_caster = 40"
    "maxMana spent_caster = 50"
    by (simp_all add: spent_caster_eq idle_player_eq)
  have b: "update (16 / 1000) spent_caster = spent_caster"
    by (rule idle_update_small_step) (simp_all add: a)
  have c: "updates (replicate 6000 (16 / 1000)) spent_caster = spent_caster"
    by (rule idle_updates_small_steps) (simp_all add: a)
  show ?thesis using b c by (simp add: a)
qed

subsection \<open>The end of an attack in the air\<close>

text \<open>
  Claim C10. If the character is attacking, the attack timer reaches 0.5 with this update
  and the character is not grounded, then the update ends in the jumping state with the
  vertical velocity set to 300 and the grounded flag false, whatever the velocity was
  before; nothing else changes.
\<close>

theorem attack_end_airborne_relaunches:
  assumes "currentState c = Some (AttackingState attackTimer)"
    and "attackTimer + deltaTime \<ge> 1 / 2"
    and "\<not> isGrounded c"
  shows "update deltaTime c =
           c\<lparr>currentState := Some JumpingState, isGrounded := False, jumpVelocity := 300\<rparr>"
  using assms
  by (simp add: update_def Let_def attackDuration_def states_createState createState_def
      setJumpVelocity_def setGrounded_def jumpForce_def)

text \<open>
  The character that attacked 0.1 time units into a jump rises at velocity 250 when the
  attack starts; half a time unit later it is launched again at 300.
\<close>

theorem attack_end_airborne_relaunches_witness:
  "currentState airborne_attacker = Some (AttackingState 0) \<and> (0::real) + 1 / 2 \<ge> 1 / 2 \<and>
   \<not> isGrounded airborne_attacker \<and> jumpVelocity airborne_attacker = 250 \<and>
   jumpVelocity (update (1 / 2) airborne_attacker) = 300 \<and>
   currentState (update (1 / 2) airborne_attacker) = Some JumpingState \<and>
   \<not> isGrounded (update (1 / 2) airborne_attacker)"
  using attack_end_airborne_relaunches [of airborne_attacker 0 "1 / 2"]
  by (simp add: airborne_attacker_eq idle_player_eq)

section \<open>Properties of the behaviour selector\<close>

subsection \<open>Names, square roots and the scenarios, evaluated\<close>

lemmas name_defs = name_patrol_def name_chase_def name_attack_def name_flee_def
  name_defend_def name_berserk_def name_none_def

lemma name_distinct:
  "name_patrol \<noteq> name_flee" "name_patrol \<noteq> name_berserk" "name_patrol \<noteq> name_attack"
  "name_patrol \<noteq> name_defend" "name_patrol \<noteq> name_chase"
  "name_chase \<noteq> name_flee" "name_chase \<noteq> name_berserk" "name_chase \<noteq> name_attack"
  "name_chase \<noteq> name_defend"
  "name_attack \<noteq> name_flee" "name_attack \<noteq> name_berserk"
  "name_defend \<noteq> name_flee" "name_defend \<noteq> name_berserk" "name_defend \<noteq> name_attack"
  "name_berserk \<noteq> name_flee"
  by (simp_all add: name_defs)

lemma sqrt_2500: "sqrt 2500 = 50"
  using real_sqrt_abs[of 50] by simp

lemma sqrt_100: "sqrt 100 = 10"
  using real_sqrt_abs[of 10] by simp

lemma sqrt_10000: "sqrt 10000 = 100"
  using real_sqrt_abs[of 100] by simp

lemma fresh_controller_eq:
  "fresh_controller =
    \<lparr>controlledEnemy =
       \<lparr>e_name = ''enemy'', e_x = 0, e_y = 0, e_health = 100, e_maxHealth = 100,
        speed = 50, detectionRange = 100, attackRange = 30,
        currentBehavior = Some (PatrolBehavior defaultWaypoints),
        targetX = 0, targetY = 0, hasTarget = False\<rparr>,
     availableBehaviors =
       [PatrolBehavior defaultWaypoints, ChaseBehavior, AttackBehavior 0,
        FleeBehavior, DefendBehavior 0, BerserkBehavior],
     behaviorUpdateInterval = 1, timeSinceLastUpdate = 0\<rparr>"
  by (simp add: fresh_controller_def newStrategyAIController_def initializeBehaviors_def
      newAIEnemy_def setBehavior_def)

lemma wounded_with_target_eq:
  "wounded_with_target =
     fresh_controller\<lparr>controlledEnemy := (controlledEnemy fresh_controller)
       \<lparr>e_health := 15, targetX := 50, targetY := 0, hasTarget := True\<rparr>\<rparr>"
  by (simp add: wounded_with_target_def onEnemy_def takeDamage_def setTarget_def
      fresh_controller_eq)

lemma attacker_eq:
  "attacker =
     fresh_controller\<lparr>controlledEnemy := (controlledEnemy fresh_controller)
       \<lparr>currentBehavior := Some (AttackBehavior (1 / 2)), targetX := 10, targetY := 0,
        hasTarget := True\<rparr>,
       timeSinceLastUpdate := 1 / 2\<rparr>"
  by (simp add: attacker_def onEnemy_def setTarget_def fresh_controller_eq
      StrategyAIController_update_def selectBestBehavior_def AIEnemy_update_def attack_def
      attackCooldown_def getCurrentBehaviorName_def getDistanceToTarget_def sqrt_100
      setBehavior_def name_defs Let_def)



lemma new_defender_eq:
  "new_defender =
     fresh_controller\<lparr>controlledEnemy := (controlledEnemy fresh_controller)
       \<lparr>e_health := 50, currentBehavior := Some (DefendBehavior 0)\<rparr>\<rparr>"
  by (simp add: new_defender_def onEnemy_def takeDamage_def fresh_controller_eq
      forceBehavior_def setBehavior_def name_defs)

lemma patrol_step_eq: "patrol_step = (fresh_controller\<lparr>timeSinceLastUpdate := 16 / 1000\<rparr>, 1)"
  by (simp add: patrol_step_def fresh_controller_eq StrategyAIController_update_def
      AIEnemy_update_def Let_def patrol_def defaultWaypoints_def moveTowards_def)

lemma back_on_patrol_eq:
  "back_on_patrol = fresh_controller\<lparr>timeSinceLastUpdate := 16 / 1000\<rparr>"
  by (simp add: back_on_patrol_def patrol_step_eq fresh_controller_eq forceBehavior_def
      setBehavior_def name_defs)

subsection \<open>The order in which selectBestBehavior decides\<close>

text \<open>
  One round of the loop: the candidate is taken if it can execute, its name is not the
  current one and it is not the patrol behaviour; otherwise the loop goes on, also when
  the candidate is the current behaviour.
\<close>

lemma selectLoop_Cons:
  "selectLoop (b # rest) e =
     (if canExecute b e \<and> getCurrentBehaviorName e \<noteq> getBehaviorName b \<and>
         getBehaviorName b \<noteq> name_patrol
      then setBehavior
             (Some (case b of
                      PatrolBehavior waypoints \<Rightarrow> b
                    | ChaseBehavior \<Rightarrow> ChaseBehavior
                    | AttackBehavior t \<Rightarrow> AttackBehavior 0
                    | FleeBehavior \<Rightarrow> FleeBehavior
                    | DefendBehavior t \<Rightarrow> DefendBehavior 0
                    | BerserkBehavior \<Rightarrow> BerserkBehavior)) e
      else selectLoop rest e)"
  by (cases b) (simp_all add: Let_def name_distinct name_distinct[symmetric]
      del: canExecute.simps)

text \<open>
  On the list that \<^verbatim>\<open>initializeBehaviors\<close> builds, the loop therefore decides in the
  order chase, attack, flee, defend, berserk, and never installs patrol.
\<close>

lemma selectLoop_list_order:
  "selectLoop [PatrolBehavior wps, ChaseBehavior, AttackBehavior 0, FleeBehavior,
               DefendBehavior 0, BerserkBehavior] e =
    (if canExecute ChaseBehavior e \<and> getCurrentBehaviorName e \<noteq> name_chase
       then setBehavior (Some ChaseBehavior) e
     else if canExecute (AttackBehavior 0) e \<and> getCurrentBehaviorName e \<noteq> name_attack
       then setBehavior (Some (AttackBehavior 0)) e
     else if canExecute FleeBehavior e \<and> getCurrentBehaviorName e \<noteq> name_flee
       then setBehavior (Some FleeBehavior) e
     else if canExecute (DefendBehavior 0) e \<and> getCurrentBehaviorName e \<noteq> name_defend
       then setBehavior (Some (DefendBehavior 0)) e
     else if canExecute BerserkBehavior e \<and> getCurrentBehaviorName e \<noteq> name_berserk
       then setBehavior (Some BerserkBehavior) e
     else e)"
  by (simp add: selectLoop_Cons name_distinct name_distinct[symmetric]
      del: selectLoop.simps(2) canExecute.simps split del: if_split cong: if_cong)

text \<open>
  Claim C1, evaluated on the program. The enemy has 15 of 100 health, so the flee and the
  berserk behaviour are both eligible, and its current behaviour is patrol. It also has a
  target 50 units away, beyond the attack range of 30. \<open>selectBestBehavior\<close> installs
  the chase behaviour, not flee: the chase candidate stands before the flee candidate in
  \<open>availableBehaviors\<close>.
\<close>

theorem selectBestBehavior_chase_before_flee:
  "e_health (controlledEnemy wounded_with_target) = 15 \<and>
   e_maxHealth (controlledEnemy wounded_with_target) = 100 \<and>
   getCurrentBehaviorName (controlledEnemy wounded_with_target) = name_patrol \<and>
   canExecute FleeBehavior (controlledEnemy wounded_with_target) \<and>
   canExecute BerserkBehavior (controlledEnemy wounded_with_target) \<and>
   currentBehavior (controlledEnemy (selectBestBehavior wounded_with_target)) =
     Some ChaseBehavior"
  by (simp add: wounded_with_target_eq fresh_controller_eq selectBestBehavior_def
      getCurrentBehaviorName_def getDistanceToTarget_def sqrt_2500 setBehavior_def name_defs)

text \<open>
  Claim C2, evaluated on the program. The enemy is in the attack behaviour with half of
  the cooldown elapsed, its target is in range and its health is 50 of 100. Neither flee
  nor berserk is eligible and attack is, so the active behaviour is the eligible one of
  highest priority. \<open>selectBestBehavior\<close> nevertheless replaces it with a new defend
  behaviour: the loop does not stop at the candidate that is the current behaviour.
\<close>

theorem selectBestBehavior_replaces_attack:
  "currentBehavior (controlledEnemy hurt_attacker) = Some (AttackBehavior (1 / 2)) \<and>
   \<not> canExecute FleeBehavior (controlledEnemy hurt_attacker) \<and>
   \<not> canExecute BerserkBehavior (controlledEnemy hurt_attacker) \<and>
   canExecute (AttackBehavior (1 / 2)) (controlledEnemy hurt_attacker) \<and>
   currentBehavior (controlledEnemy (selectBestBehavior hurt_attacker)) =
     Some (DefendBehavior 0)"
  by (simp add: hurt_attacker_def attacker_eq onEnemy_def takeDamage_def fresh_controller_eq
      selectBestBehavior_def getCurrentBehaviorName_def getDistanceToTarget_def sqrt_100
      setBehavior_def name_defs Let_def)

subsection \<open>The update of the controller\<close>




subsection \<open>The defend behaviour\<close>

lemma defend_execute_halves:
  "speed (fst (execute (DefendBehavior defendTimer) deltaTime e w)) = speed e / 2"
  by (simp add: Let_def setSpeed_def)

text \<open>
  Claim C8, evaluated on the program. The enemy enters a new defend behaviour with the
  speed 50. After one frame of 0.016 time units the speed is 25, after the second frame it
  is 12.5, and the defend timer stands at 0.032, far from the duration 2: the speed is
  halved by every call of \<open>execute\<close>, not once for each elapsed duration.
\<close>

theorem defend_halves_speed_every_call:
  "currentBehavior (controlledEnemy new_defender) = Some (DefendBehavior 0) \<and>
   speed (controlledEnemy new_defender) = 50 \<and>
   speed (controlledEnemy (fst (StrategyAIController_update (16 / 1000) new_defender 0))) =
     25 \<and>
   speed (controlledEnemy (fst (StrategyAIController_update (16 / 1000)
            (fst (StrategyAIController_update (16 / 1000) new_defender 0)) 0))) = 25 / 2 \<and>
   currentBehavior (controlledEnemy (fst (StrategyAIController_update (16 / 1000)
            (fst (StrategyAIController_update (16 / 1000) new_defender 0)) 0))) =
     Some (DefendBehavior (32 / 1000))"
  by (simp add: new_defender_eq fresh_controller_eq StrategyAIController_update_def
      AIEnemy_update_def Let_def setSpeed_def defendDuration_def)

subsection \<open>The waypoint index of the patrol\<close>

text \<open>
  Claim C9, evaluated on the program. The first frame of patrol finds the enemy at the
  first waypoint and advances the static index to 1. The controller is then switched to
  chase and back to patrol, which installs a new patrol object; the next frame moves the
  enemy from x = 0 to x = 0.8, towards the second waypoint (100, 0): the progress made
  before the switch is still there. The index is also shared: a second enemy at (50, 0),
  on its very first patrol frame, moves to x = 50.8, towards the second waypoint, where an
  index of 0 would have taken it to x = 49.2, towards the first.
\<close>

theorem patrol_waypoint_survives_switch:
  "snd patrol_step = 1 \<and>
   currentBehavior (controlledEnemy (forceBehavior name_chase (fst patrol_step))) =
     Some ChaseBehavior \<and>
   currentBehavior (controlledEnemy back_on_patrol) = Some (PatrolBehavior defaultWaypoints) \<and>
   e_x (controlledEnemy back_on_patrol) = 0 \<and>
   AIEnemy_update (16 / 1000) (controlledEnemy back_on_patrol) (snd patrol_step) =
     ((controlledEnemy back_on_patrol)\<lparr>e_x := 4 / 5\<rparr>, 1) \<and>
   e_x (controlledEnemy second_controller) = 50 \<and>
   AIEnemy_update (16 / 1000) (controlledEnemy second_controller) (snd patrol_step) =
     ((controlledEnemy second_controller)\<lparr>e_x := 254 / 5\<rparr>, 1) \<and>
   AIEnemy_update (16 / 1000) (controlledEnemy second_controller) 0 =
     ((controlledEnemy second_controller)\<lparr>e_x := 246 / 5\<rparr>, 0)"
  by (simp add: patrol_step_eq back_on_patrol_eq fresh_controller_eq forceBehavior_def
      setBehavior_def name_defs second_controller_def newStrategyAIController_def
      initializeBehaviors_def newAIEnemy_def AIEnemy_update_def patrol_def
      defaultWaypoints_def moveTowards_def Let_def sqrt_10000 sqrt_2500)

end
